theory Spec2Isabelle
  imports Complex_Main
begin

section \<open>JavaScript values\<close>

text \<open>
  A JavaScript \<^verbatim>\<open>number\<close> is modelled as an exact real extended with the three
  special values of IEEE 754 arithmetic. The special values follow the IEEE rules
  (\<^verbatim>\<open>0/0\<close>, \<^verbatim>\<open>Infinity - Infinity\<close> and \<^verbatim>\<open>Infinity * 0\<close> are \<^verbatim>\<open>NaN\<close>, \<^verbatim>\<open>NaN\<close>
  propagates and compares false with everything). Rounding, overflow of finite
  results and the sign of zero are not modelled.
\<close>

datatype number = Fin real | PosInf | NegInf | NaN

fun js_neg :: "number \<Rightarrow> number" where
  "js_neg (Fin a) = Fin (- a)"
| "js_neg PosInf = NegInf"
| "js_neg NegInf = PosInf"
| "js_neg NaN = NaN"

fun js_add :: "number \<Rightarrow> number \<Rightarrow> number" where
  "js_add (Fin a) (Fin b) = Fin (a + b)"
| "js_add NaN _ = NaN"
| "js_add _ NaN = NaN"
| "js_add PosInf NegInf = NaN"
| "js_add NegInf PosInf = NaN"
| "js_add PosInf _ = PosInf"
| "js_add _ PosInf = PosInf"
| "js_add NegInf _ = NegInf"
| "js_add _ NegInf = NegInf"

definition js_sub :: "number \<Rightarrow> number \<Rightarrow> number" where
  "js_sub a b = js_add a (js_neg b)"

text \<open>The sign of an infinite product or quotient: \<open>True\<close> is positive.\<close>

definition js_inf :: "bool \<Rightarrow> number" where
  "js_inf positive = (if positive then PosInf else NegInf)"

fun js_mul :: "number \<Rightarrow> number \<Rightarrow> number" where
  "js_mul (Fin a) (Fin b) = Fin (a * b)"
| "js_mul NaN _ = NaN"
| "js_mul _ NaN = NaN"
| "js_mul PosInf (Fin b) = (if b = 0 then NaN else js_inf (0 < b))"
| "js_mul NegInf (Fin b) = (if b = 0 then NaN else js_inf (b < 0))"
| "js_mul (Fin a) PosInf = (if a = 0 then NaN else js_inf (0 < a))"
| "js_mul (Fin a) NegInf = (if a = 0 then NaN else js_inf (a < 0))"
| "js_mul PosInf PosInf = PosInf"
| "js_mul PosInf NegInf = NegInf"
| "js_mul NegInf PosInf = NegInf"
| "js_mul NegInf NegInf = PosInf"

fun js_div :: "number \<Rightarrow> number \<Rightarrow> number" where
  "js_div (Fin a) (Fin b) =
     (if b = 0 then (if a = 0 then NaN else js_inf (0 < a)) else Fin (a / b))"
| "js_div NaN _ = NaN"
| "js_div _ NaN = NaN"
| "js_div (Fin a) PosInf = Fin 0"
| "js_div (Fin a) NegInf = Fin 0"
| "js_div PosInf (Fin b) = js_inf (0 \<le> b)"
| "js_div NegInf (Fin b) = js_inf (b < 0)"
| "js_div PosInf _ = NaN"
| "js_div NegInf _ = NaN"

text \<open>\<^verbatim>\<open>a < b\<close>; \<^verbatim>\<open>a > b\<close> is \<open>js_lt b a\<close>. Every comparison with \<^verbatim>\<open>NaN\<close> is false.\<close>

fun js_lt :: "number \<Rightarrow> number \<Rightarrow> bool" where
  "js_lt (Fin a) (Fin b) = (a < b)"
| "js_lt NaN _ = False"
| "js_lt _ NaN = False"
| "js_lt _ NegInf = False"
| "js_lt PosInf _ = False"
| "js_lt NegInf _ = True"
| "js_lt _ PosInf = True"

definition js_gt :: "number \<Rightarrow> number \<Rightarrow> bool" where
  "js_gt a b = js_lt b a"

text \<open>\<^verbatim>\<open>a === b\<close> on numbers.\<close>

definition js_strict_eq :: "number \<Rightarrow> number \<Rightarrow> bool" where
  "js_strict_eq a b = (a \<noteq> NaN \<and> b \<noteq> NaN \<and> a = b)"

text \<open>\<^verbatim>\<open>Math.max\<close>, \<^verbatim>\<open>Math.min\<close>, \<^verbatim>\<open>Math.abs\<close>, \<^verbatim>\<open>Math.floor\<close> and the remainder \<^verbatim>\<open>%\<close>
  (the result takes the sign of the dividend).\<close>

definition Math_max :: "number \<Rightarrow> number \<Rightarrow> number" where
  "Math_max a b = (if a = NaN \<or> b = NaN then NaN else if js_lt a b then b else a)"

definition Math_min :: "number \<Rightarrow> number \<Rightarrow> number" where
  "Math_min a b = (if a = NaN \<or> b = NaN then NaN else if js_lt b a then b else a)"

fun Math_abs :: "number \<Rightarrow> number" where
  "Math_abs (Fin a) = Fin \<bar>a\<bar>"
| "Math_abs PosInf = PosInf"
| "Math_abs NegInf = PosInf"
| "Math_abs NaN = NaN"

fun Math_floor :: "number \<Rightarrow> number" where
  "Math_floor (Fin a) = Fin (of_int \<lfloor>a\<rfloor>)"
| "Math_floor x = x"

definition trunc :: "real \<Rightarrow> int" where
  "trunc x = (if 0 \<le> x then \<lfloor>x\<rfloor> else \<lceil>x\<rceil>)"

fun js_rem :: "number \<Rightarrow> number \<Rightarrow> number" where
  "js_rem (Fin a) (Fin b) = (if b = 0 then NaN else Fin (a - b * of_int (trunc (a / b))))"
| "js_rem NaN _ = NaN"
| "js_rem _ NaN = NaN"
| "js_rem PosInf _ = NaN"
| "js_rem NegInf _ = NaN"
| "js_rem (Fin a) _ = Fin a"

text \<open>
  A value that may be \<^verbatim>\<open>undefined\<close> or \<^verbatim>\<open>null\<close>, such as an optional parameter
  of a message that a peer has sent. \<open>nullish x\<close> is the test \<^verbatim>\<open>x == null\<close>, which holds
  for both. The \<^verbatim>\<open>origin\<close> of a handler has the type \<^verbatim>\<open>StoreLink | undefined\<close> and is an
  \<open>option\<close>: \<open>None\<close> is \<^verbatim>\<open>undefined\<close>, the local invocation.
\<close>

datatype 'a nullable = Undefined | Null | Defined 'a

fun nullish :: "'a nullable \<Rightarrow> bool" where
  "nullish (Defined _) = False"
| "nullish _ = True"

text \<open>The values a message parameter of type \<^verbatim>\<open>any\<close> can hold.\<close>

datatype any =
    AnyUndefined
  | AnyNull
  | AnyBoolean bool
  | AnyNumber number
  | AnyString string
  | AnyArray "any list"

section \<open>Store links (\<^verbatim>\<open>link.ts\<close>)\<close>

text \<open>\<^verbatim>\<open>export type StoreLinkId = string | number\<close>\<close>

datatype StoreLinkId = IdString string | IdNumber number

text \<open>
  Modelled from the spec: the type \<^verbatim>\<open>ActionIdentifier\<close> is imported from \<^verbatim>\<open>./action\<close>,
  which is not among the sources; the spec describes it as a "string- or
  number-valued name".
\<close>

datatype ActionIdentifier = ActionString string | ActionNumber number

text \<open>
  \<^verbatim>\<open>export type StoreLinkMessage = [actionIdentifier: ActionIdentifier, ...params: Array<any>]\<close>:
  a labelled tuple type with a rest element.
\<close>

record StoreLinkMessage =
  actionIdentifier :: ActionIdentifier
  params :: "any list"

text \<open>The JavaScript array that carries a message, and the identifier as an array element.\<close>

fun identifier_value :: "ActionIdentifier \<Rightarrow> any" where
  "identifier_value (ActionString s) = AnyString s"
| "identifier_value (ActionNumber n) = AnyNumber n"

definition message_array :: "StoreLinkMessage \<Rightarrow> any list" where
  "message_array m = identifier_value (actionIdentifier m) # params m"

text \<open>
  Membership of a JavaScript array in the tuple type: the array has a first element,
  that element is a string or a number, and the rest is unconstrained.
\<close>

fun is_ActionIdentifier :: "any \<Rightarrow> bool" where
  "is_ActionIdentifier (AnyString _) = True"
| "is_ActionIdentifier (AnyNumber _) = True"
| "is_ActionIdentifier _ = False"

fun is_StoreLinkMessage :: "any list \<Rightarrow> bool" where
  "is_StoreLinkMessage [] = False"
| "is_StoreLinkMessage (x # xs) = is_ActionIdentifier x"

text \<open>Reading an array back as a message; \<open>None\<close> where the array is not of the type.\<close>

fun as_ActionIdentifier :: "any \<Rightarrow> ActionIdentifier option" where
  "as_ActionIdentifier (AnyString s) = Some (ActionString s)"
| "as_ActionIdentifier (AnyNumber n) = Some (ActionNumber n)"
| "as_ActionIdentifier _ = None"

fun as_StoreLinkMessage :: "any list \<Rightarrow> StoreLinkMessage option" where
  "as_StoreLinkMessage [] = None"
| "as_StoreLinkMessage (x # xs) =
     (case as_ActionIdentifier x of
        None \<Rightarrow> None
      | Some i \<Rightarrow> Some \<lparr>actionIdentifier = i, params = xs\<rparr>)"

text \<open>\<^verbatim>\<open>export const RootStoreDefaultLinkId = Number.MIN_SAFE_INTEGER\<close>, where
  \<^verbatim>\<open>Number.MIN_SAFE_INTEGER\<close> is the language's constant \<open>-(2\<^sup>5\<^sup>3 - 1)\<close>.\<close>

definition Number_MIN_SAFE_INTEGER :: number where
  "Number_MIN_SAFE_INTEGER = Fin (- (2 ^ 53 - 1))"

definition RootStoreDefaultLinkId :: number where
  "RootStoreDefaultLinkId = Number_MIN_SAFE_INTEGER"

text \<open>
  \<^verbatim>\<open>interface StoreLink { id; connection; store; publish(...message); close() }\<close>.
  A link is represented by its data fields. The connection is an external object,
  held as an opaque handle; the back reference to the owning store is left out, and
  \<^verbatim>\<open>publish\<close> is the operation \<open>publish\<close> below on the link's outbox.
\<close>

type_synonym Connection = nat

record StoreLink =
  link_id :: StoreLinkId
  connection :: Connection

text \<open>
  \<^verbatim>\<open>publish(...message: StoreLinkMessage): void\<close>. The interface declares the method
  without a body; its signature fixes which argument lists a call may pass. A call
  with an argument array outside the type is rejected by the type checker (\<open>None\<close>);
  a call inside the type sends the message to the link's peer, recorded here by
  appending it to what the link has sent.
\<close>

definition publish :: "any list \<Rightarrow> StoreLinkMessage list \<Rightarrow> StoreLinkMessage list option" where
  "publish arguments sent =
     (case as_StoreLinkMessage arguments of
        None \<Rightarrow> None
      | Some m \<Rightarrow> Some (sent @ [m]))"

section \<open>Publishing (\<^verbatim>\<open>Action\<close>, \<^verbatim>\<open>Request\<close>)\<close>

text \<open>
  The addressing target of the spec's public type
  \<^verbatim>\<open>{to:"one", one: StoreLink} | {to:"all"} | {to:"all-except-one", except: StoreLink}\<close>,
  as the object literals of the sources build it.
\<close>

datatype PublishTarget =
    To_one StoreLink
  | To_all
  | To_all_except_one StoreLink

text \<open>
  The first argument of a \<^verbatim>\<open>publishTo\<close> call as the call site passes it: an object
  literal with a \<^verbatim>\<open>to\<close> tag, or a \<^verbatim>\<open>StoreLink\<close> object itself (\<^verbatim>\<open>this.mainLink\<close>),
  which has the fields of the interface above and no \<^verbatim>\<open>to\<close> tag.
\<close>

datatype publishTo_argument =
    Target PublishTarget
  | Link StoreLink

fun is_addressing_target :: "publishTo_argument \<Rightarrow> bool" where
  "is_addressing_target (Target _) = True"
| "is_addressing_target (Link _) = False"

text \<open>
  What a handler does besides changing its store: a call
  \<^verbatim>\<open>this.<operation>.publishTo(first, ...message)\<close>; \<^verbatim>\<open>setTimeout(() => this.<operation>())\<close>;
  \<^verbatim>\<open>this.clock.wait(ms).then(() => this.<operation>())\<close>.
\<close>

datatype effect =
    PublishTo string publishTo_argument "number list"
  | SetTimeout string
  | WaitThen number string

fun publishTo_calls :: "effect list \<Rightarrow> (string \<times> publishTo_argument \<times> number list) list" where
  "publishTo_calls [] = []"
| "publishTo_calls (PublishTo name a m # es) = (name, a, m) # publishTo_calls es"
| "publishTo_calls (_ # es) = publishTo_calls es"

text \<open>
  Modelled from the spec: the resolution of an addressing target against the store's
  link set is done by \<^verbatim>\<open>Action.publishTo\<close>, which is not among the sources. The spec:
  \<^verbatim>\<open>{to:"all"}\<close> delivers once to every link of the set, \<^verbatim>\<open>{to:"all-except-one", except: L}\<close>
  to every link of the set except \<open>L\<close>, and a link addressed individually that is not
  in the set is silently skipped.
\<close>

fun recipients :: "StoreLink list \<Rightarrow> PublishTarget \<Rightarrow> StoreLink list" where
  "recipients links (To_one l) = (if l \<in> set links then [l] else [])"
| "recipients links To_all = links"
| "recipients links (To_all_except_one l) = filter (\<lambda>k. k \<noteq> l) links"

text \<open>A failure raised by a handler: \<^verbatim>\<open>throw new Error(message)\<close>.\<close>

datatype failure = Error string

text \<open>
  Modelled from the spec: calling an Action directly is implemented by
  \<^verbatim>\<open>Action.create\<close>, which is not among the sources. The spec: the call "runs the
  handler with \<^verbatim>\<open>origin = undefined\<close>", and a failure of the handler "is NOT caught by
  the protocol layer": the caller receives it.
\<close>

definition Action_call ::
  "('s \<Rightarrow> StoreLink option \<Rightarrow> 'p \<Rightarrow> failure + 'r) \<Rightarrow> 's \<Rightarrow> 'p \<Rightarrow> failure + 'r" where
  "Action_call handler store parameters = handler store None parameters"

section \<open>Subscribers\<close>

text \<open>
  A subscriber handler receives the callbacks \<^verbatim>\<open>accept\<close> and \<^verbatim>\<open>deny\<close>; its behaviour
  towards the protocol is the sequence of calls it makes on them.
\<close>

datatype 'p subscriber_call = Accept 'p | Deny string

fun is_Accept :: "'p subscriber_call \<Rightarrow> bool" where
  "is_Accept (Accept _) = True"
| "is_Accept (Deny _) = False"

text \<open>
  Modelled from the spec: the state machine of one subscription attempt,
  "\<^verbatim>\<open>Pending \<rightarrow> {Accepted(link created), Denied}\<close>; terminal either way; no re-entry".
  A call in a terminal state is the protocol violation of calling both (\<open>None\<close>).
\<close>

datatype attempt = Pending | Accepted | Denied

fun attempt_step :: "attempt \<Rightarrow> 'p subscriber_call \<Rightarrow> attempt option" where
  "attempt_step Pending (Accept _) = Some Accepted"
| "attempt_step Pending (Deny _) = Some Denied"
| "attempt_step _ _ = None"

fun attempt_run :: "attempt \<Rightarrow> 'p subscriber_call list \<Rightarrow> attempt option" where
  "attempt_run a [] = Some a"
| "attempt_run a (c # cs) =
     (case attempt_step a c of None \<Rightarrow> None | Some a' \<Rightarrow> attempt_run a' cs)"

section \<open>Observables\<close>

text \<open>
  The result of a Request handler is an rxjs \<^verbatim>\<open>Observable\<close>, an external type. It is
  represented by what a subscriber observes: the values emitted, in order, and how the
  sequence ends. \<^verbatim>\<open>of(x)\<close> emits \<open>x\<close> and completes; \<^verbatim>\<open>NEVER\<close> emits nothing and never
  ends.
\<close>

datatype ending = Completes | Fails failure | Never_ends

datatype 'a Observable = Observable (emissions: "'a list") (ending: ending)

definition rx_of :: "'a \<Rightarrow> 'a Observable" where
  "rx_of x = Observable [x] Completes"

definition NEVER :: "'a Observable" where
  "NEVER = Observable [] Never_ends"

text \<open>
  Modelled from the spec: remote invocation of a Request is implemented by
  \<^verbatim>\<open>Request.create\<close>, which is not among the sources. The spec: the dispatch table
  resolves the identifier of the inbound message (an unknown identifier is dropped);
  "the dispatch layer invokes the handler with \<^verbatim>\<open>origin = L\<close>, subscribes to the returned
  producer, and for each emission publishes a result message back to L alone
  (\<^verbatim>\<open>{to:"one", one: L}\<close>); on completion publishes a completion marker; on failure
  publishes an error marker". The parameters of the message have the operation's
  declared parameter types.
\<close>

datatype 'r reply = Result 'r | Completion | Error_marker failure

definition Request_remote ::
  "(StoreLink option \<Rightarrow> 'p \<Rightarrow> 'r Observable) \<Rightarrow> StoreLink \<Rightarrow> 'p \<Rightarrow> (PublishTarget \<times> 'r reply) list" where
  "Request_remote handler l parameters =
     (let producer = handler (Some l) parameters in
      map (\<lambda>v. (To_one l, Result v)) (emissions producer) @
      (case ending producer of
         Completes \<Rightarrow> [(To_one l, Completion)]
       | Fails e \<Rightarrow> [(To_one l, Error_marker e)]
       | Never_ends \<Rightarrow> []))"

definition Request_dispatch ::
  "(ActionIdentifier \<Rightarrow> (StoreLink option \<Rightarrow> 'p \<Rightarrow> 'r Observable) option) \<Rightarrow>
   StoreLink \<Rightarrow> ActionIdentifier \<times> 'p \<Rightarrow> (PublishTarget \<times> 'r reply) list" where
  "Request_dispatch table l message =
     (case table (fst message) of
        None \<Rightarrow> []
      | Some handler \<Rightarrow> Request_remote handler l (snd message))"

text \<open>The messages each link receives from a sequence of publishes, in order.\<close>

fun deliveries :: "StoreLink list \<Rightarrow> (PublishTarget \<times> 'm) list \<Rightarrow> (StoreLink \<times> 'm) list" where
  "deliveries links [] = []"
| "deliveries links ((t, m) # ps) = map (\<lambda>l. (l, m)) (recipients links t) @ deliveries links ps"

text \<open>The handler of the spec's example, \<^verbatim>\<open>add(origin, a, b) => of(a + b)\<close>.\<close>

definition add_of :: "StoreLink option \<Rightarrow> number \<times> number \<Rightarrow> number Observable" where
  "add_of origin ab = rx_of (js_add (fst ab) (snd ab))"

section \<open>The stores of the examples\<close>

text \<open>
  Modelled from the spec: the base class \<^verbatim>\<open>Store\<close> is not among the sources. Of its
  fields the examples read \<^verbatim>\<open>mainLink\<close>, the link of the store to "one authoritative
  peer (typically the server)".
\<close>

record Store =
  mainLink :: StoreLink

subsection \<open>\<^verbatim>\<open>RequestStore\<close> (\<^verbatim>\<open>request.ts\<close>)\<close>

text \<open>\<^verbatim>\<open>subscriber = Subscriber.create(RequestStore, (connection, accept, deny) => accept())\<close>\<close>

definition RequestStore_subscriber :: "Connection \<Rightarrow> unit subscriber_call list" where
  "RequestStore_subscriber conn = [Accept ()]"

text \<open>
  The handler of \<^verbatim>\<open>add\<close>. \<open>publishTo\<close> is the observable that \<^verbatim>\<open>this.add.publishTo\<close>
  returns (implemented by \<^verbatim>\<open>Request.create\<close>, not among the sources), \<open>random\<close> the value
  \<^verbatim>\<open>Math.random()\<close> returns when it is called. The result is the returned observable
  and the \<^verbatim>\<open>publishTo\<close> calls made.
\<close>

definition RequestStore_add ::
  "(StoreLink \<Rightarrow> number list \<Rightarrow> number Observable) \<Rightarrow> number \<Rightarrow> Store \<Rightarrow>
   StoreLink option \<Rightarrow> number \<Rightarrow> number \<Rightarrow> number Observable \<times> effect list" where
  "RequestStore_add publishTo random this origin v1 v2 =
     (if origin = None then
        (publishTo (mainLink this) [v1, v2], [PublishTo ''add'' (Link (mainLink this)) [v1, v2]])
      else
        (if js_gt random (Fin 0.5) then NEVER else rx_of (js_add v1 v2), []))"

subsection \<open>\<^verbatim>\<open>ConsistentStore\<close>\<close>

text \<open>\<^verbatim>\<open>const velocity = 0.0001\<close>\<close>

definition velocity :: number where
  "velocity = Fin (1 / 10000)"

text \<open>\<^verbatim>\<open>type StateAction = { type: "init" | "invert"; id: number }\<close>\<close>

record StateAction =
  action_type :: string
  action_id :: number

text \<open>\<^verbatim>\<open>type SmoothState = { value: number; velocity: number }\<close>\<close>

record SmoothState =
  smooth_value :: number
  smooth_velocity :: number

text \<open>\<^verbatim>\<open>class ContinousState { constructor(public value: number, public directionInverted: boolean) }\<close>\<close>

record ContinousState =
  state_value :: number
  directionInverted :: bool

text \<open>\<^verbatim>\<open>ContinousState.update\<close>, the callback by which the universe extrapolates a state.\<close>

definition update ::
  "ContinousState \<Rightarrow> ContinousState nullable \<Rightarrow> number \<Rightarrow> StateAction nullable \<Rightarrow>
   number nullable \<Rightarrow> ContinousState nullable \<Rightarrow> ContinousState" where
  "update this base deltaTime action prevDeltaTime prevBase =
     (case base of
        Defined b \<Rightarrow>
          (case action of
             Defined a \<Rightarrow>
               if action_type a = ''init'' then this
               else if action_type a = ''invert'' \<and>
                    (case prevBase of
                       Defined pb \<Rightarrow>
                         directionInverted b = directionInverted pb \<and>
                         js_strict_eq (state_value b) (state_value pb)
                     | _ \<Rightarrow> False) \<and>
                    (case prevDeltaTime of Defined pd \<Rightarrow> js_strict_eq pd deltaTime | _ \<Rightarrow> False)
               then this
               else \<lparr>state_value =
                       js_add (state_value b)
                         (js_mul deltaTime (if directionInverted b then js_neg velocity else velocity)),
                     directionInverted = (\<not> directionInverted b)\<rparr>
           | _ \<Rightarrow>
               \<lparr>state_value =
                  js_add (state_value b)
                    (js_mul deltaTime (if directionInverted b then js_neg velocity else velocity)),
                directionInverted = directionInverted b\<rparr>)
      | _ \<Rightarrow> this)"

text \<open>\<^verbatim>\<open>function limitAbs(value, limit)\<close>\<close>

definition limitAbs :: "number \<Rightarrow> number \<Rightarrow> number" where
  "limitAbs v limit = Math_max (js_neg limit) (Math_min limit v)"

text \<open>\<^verbatim>\<open>function applySmoothing(smoothState, smoothStateTime, realState, realStateTime)\<close>;
  the result is the smooth state after the call.\<close>

definition applySmoothing ::
  "SmoothState \<Rightarrow> number \<Rightarrow> ContinousState \<Rightarrow> number \<Rightarrow> SmoothState" where
  "applySmoothing smoothState smoothStateTime realState realStateTime =
     (let deltaTime = js_sub realStateTime smoothStateTime;
          velocityReal = (if directionInverted realState then js_neg velocity else velocity);
          valueReal = state_value realState;
          valueSmoothed = smooth_value smoothState;
          vd = js_div
                 (js_add velocityReal
                    (js_div (js_mul (Fin (5 / 100)) (js_sub valueReal valueSmoothed)) deltaTime))
                 (Fin (105 / 100));
          v' = js_add (smooth_velocity smoothState)
                 (limitAbs (js_sub vd (smooth_velocity smoothState))
                    (js_mul (js_mul velocity deltaTime) (Fin (1 / 10))))
      in \<lparr>smooth_value = js_add valueSmoothed (js_mul v' deltaTime), smooth_velocity = v'\<rparr>)"

text \<open>
  \<^verbatim>\<open>Clock\<close> and \<^verbatim>\<open>Universe\<close> come from the library co-consistent, an external
  collaborator. Their operations are parameters of the model: \<open>'c\<close> is the state of a
  clock, \<open>'u\<close> the state of a universe, \<open>'e\<close> an entry of its history.
  \<open>Clock_wait c ms\<close> is the clock when the promise of \<^verbatim>\<open>clock.wait(ms)\<close> has resolved.
  \<open>Universe_applyStateAt u ref entry time\<close> is the state object \<open>ref\<close> after
  \<^verbatim>\<open>universe.applyStateAt(ref, entry, time)\<close>. The operations are taken to return
  normally.
\<close>

record ('c, 'u, 'e) external =
  Clock_new :: "number \<Rightarrow> 'c"
  Clock_getCurrentTime :: "'c \<Rightarrow> number"
  Clock_change :: "'c \<Rightarrow> number \<Rightarrow> number \<Rightarrow> 'c"
  Clock_jump :: "'c \<Rightarrow> number \<Rightarrow> 'c"
  Clock_wait :: "'c \<Rightarrow> number \<Rightarrow> 'c"
  Universe_new :: 'u
  Universe_insert :: "'u \<Rightarrow> StateAction \<Rightarrow> number \<Rightarrow> number \<Rightarrow> ContinousState nullable \<Rightarrow> 'u"
  Universe_history :: "'u \<Rightarrow> 'e list"
  Universe_applyStateAt :: "'u \<Rightarrow> ContinousState \<Rightarrow> 'e nullable \<Rightarrow> number \<Rightarrow> ContinousState"

text \<open>The fields of a \<^verbatim>\<open>ConsistentStore\<close>; \<^verbatim>\<open>smoothedRef\<close> is held as its two fields,
  \<open>None\<close> for \<^verbatim>\<open>undefined\<close>.\<close>

record ('c, 'u) ConsistentStore = Store +
  onServer :: bool
  clock :: 'c
  universe :: 'u
  smoothedRef_state :: "SmoothState option"
  smoothedRef_time :: "number option"
  realStateRef :: ContinousState

text \<open>\<^verbatim>\<open>this.universe.history[this.universe.history.length - 1]\<close>: \<^verbatim>\<open>undefined\<close> on an
  empty history.\<close>

definition last_entry :: "('c, 'u, 'e) external \<Rightarrow> 'u \<Rightarrow> 'e nullable" where
  "last_entry ext u =
     (case Universe_history ext u of [] \<Rightarrow> Undefined | h # hs \<Rightarrow> Defined (last (h # hs)))"

text \<open>
  The constructor. \<open>main\<close> is the \<^verbatim>\<open>mainLink\<close> that \<^verbatim>\<open>super()\<close> sets, \<open>random\<close> the value
  of \<^verbatim>\<open>Math.random()\<close>. The result is the new store and the effects of the call.
\<close>

definition new_ConsistentStore ::
  "('c, 'u, 'e) external \<Rightarrow> StoreLink \<Rightarrow> number \<Rightarrow> bool \<Rightarrow> number \<Rightarrow> number \<Rightarrow> bool \<Rightarrow>
   ('c, 'u) ConsistentStore \<times> effect list" where
  "new_ConsistentStore ext main random onServer' time val inverted =
     (\<lparr>mainLink = main,
       onServer = onServer',
       clock = Clock_new ext time,
       universe =
         Universe_insert ext (Universe_new ext) \<lparr>action_type = ''init'', action_id = random\<rparr>
           time time (Defined \<lparr>state_value = val, directionInverted = inverted\<rparr>),
       smoothedRef_state = None,
       smoothedRef_time = None,
       realStateRef = \<lparr>state_value = Fin 0, directionInverted = False\<rparr>\<rparr>,
      if \<not> onServer' then [SetTimeout ''informTime''] else [])"

text \<open>The subscriber handler: the store after the call and the calls made on
  \<^verbatim>\<open>accept\<close> and \<^verbatim>\<open>deny\<close>.\<close>

definition ConsistentStore_subscriber ::
  "('c, 'u, 'e) external \<Rightarrow> ('c, 'u) ConsistentStore \<Rightarrow> Connection \<Rightarrow>
   ('c, 'u) ConsistentStore \<times> (number \<times> number \<times> bool) subscriber_call list" where
  "ConsistentStore_subscriber ext this conn =
     (let time = Clock_getCurrentTime ext (clock this);
          entry = last_entry ext (universe this);
          ref = Universe_applyStateAt ext (universe this) (realStateRef this) entry time
      in (this\<lparr>realStateRef := ref\<rparr>, [Accept (time, state_value ref, directionInverted ref)]))"

text \<open>The handler of \<^verbatim>\<open>changeTime\<close>: the failure thrown, or the store after the call and
  the effects.\<close>

definition changeTime ::
  "('c, 'u, 'e) external \<Rightarrow> ('c, 'u) ConsistentStore \<Rightarrow> StoreLink option \<Rightarrow> number \<Rightarrow>
   failure + ('c, 'u) ConsistentStore \<times> effect list" where
  "changeTime ext this origin by' =
     (if onServer this then Inl (Error ''should not warp time on the server'')
      else Inr (this\<lparr>clock := Clock_change ext (clock this) by' (Fin (1 / 2))\<rparr>,
                [WaitThen (Math_max (Fin 500) (js_mul by' (Fin 2))) ''informTime'']))"

text \<open>The handler of \<^verbatim>\<open>informTime\<close>.\<close>

definition informTime ::
  "('c, 'u, 'e) external \<Rightarrow> ('c, 'u) ConsistentStore \<Rightarrow> StoreLink option \<Rightarrow> number nullable \<Rightarrow>
   ('c, 'u) ConsistentStore \<times> effect list" where
  "informTime ext this origin currentTime =
     (case origin of
        Some l \<Rightarrow>
          (case currentTime of
             Defined t \<Rightarrow>
               if onServer this then
                 (this, [PublishTo ''changeTime'' (Target (To_one l))
                           [js_sub (Clock_getCurrentTime ext (clock this)) t]])
               else (this, [])
           | _ \<Rightarrow> (this, []))
      | None \<Rightarrow>
          (this, [PublishTo ''informTime'' (Target (To_one (mainLink this)))
                    [Clock_getCurrentTime ext (clock this)]]))"

text \<open>
  The handler of \<^verbatim>\<open>invert\<close>. \<open>invert_insert\<close> is the part every path that does not
  return early ends with (from the test of \<^verbatim>\<open>smoothedRef\<close> to the \<^verbatim>\<open>publishTo\<close> call),
  run with the values the locals \<^verbatim>\<open>currentTime\<close>, \<^verbatim>\<open>stateTime\<close> and \<^verbatim>\<open>id\<close> have
  there. \<open>random\<close> is the value of \<^verbatim>\<open>Math.random()\<close>. The handler is asynchronous: on
  the server it awaits \<^verbatim>\<open>clock.wait(jumpBy)\<close> when the message is stamped with a future
  time. The model resumes with the store as it was, the clock apart; what other
  handlers do to the store during the wait is not modelled, and the effects of the
  handler do not depend on it.
\<close>

definition invert_insert ::
  "('c, 'u, 'e) external \<Rightarrow> ('c, 'u) ConsistentStore \<Rightarrow> StoreLink option \<Rightarrow> number \<Rightarrow> number \<Rightarrow>
   number \<Rightarrow> ('c, 'u) ConsistentStore \<times> effect list" where
  "invert_insert ext this origin currentTime stateTime ident =
     (let this1 =
            (case smoothedRef_state this of
               Some st \<Rightarrow>
                 (case smoothedRef_time this of
                    Some t \<Rightarrow>
                      (let deltaTime = js_sub currentTime t;
                           v = js_add (smooth_value st) (js_mul (smooth_velocity st) deltaTime)
                       in this\<lparr>smoothedRef_state :=
                                  Some \<lparr>smooth_value = v, smooth_velocity = js_neg (smooth_velocity st)\<rparr>,
                                smoothedRef_time := Some currentTime\<rparr>)
                  | None \<Rightarrow> this)
             | None \<Rightarrow> this);
          this2 =
            this1\<lparr>universe :=
                    Universe_insert ext (universe this1) \<lparr>action_type = ''invert'', action_id = ident\<rparr>
                      currentTime stateTime Undefined\<rparr>
      in (this2,
          [PublishTo ''invert''
             (Target (case origin of None \<Rightarrow> To_all | Some l \<Rightarrow> To_all_except_one l))
             [stateTime, ident]]))"

definition invert ::
  "('c, 'u, 'e) external \<Rightarrow> number \<Rightarrow> ('c, 'u) ConsistentStore \<Rightarrow> StoreLink option \<Rightarrow>
   number nullable \<Rightarrow> number nullable \<Rightarrow> ('c, 'u) ConsistentStore \<times> effect list" where
  "invert ext random this origin stateTime ident =
     (let currentTime = Clock_getCurrentTime ext (clock this) in
      if origin = None then invert_insert ext this origin currentTime currentTime random
      else
        (case stateTime of
           Defined st \<Rightarrow>
             (case ident of
                Defined i \<Rightarrow>
                  if js_gt st currentTime then
                    (let jumpBy = js_sub st currentTime;
                         this' =
                           (if onServer this
                            then this\<lparr>clock := Clock_wait ext (clock this) jumpBy\<rparr>
                            else this\<lparr>clock := Clock_jump ext (clock this) jumpBy\<rparr>)
                     in invert_insert ext this' origin (Clock_getCurrentTime ext (clock this')) st i)
                  else invert_insert ext this origin currentTime st i
              | _ \<Rightarrow> (this, []))
         | _ \<Rightarrow> (this, [])))"

text \<open>
  \<^verbatim>\<open>getCurrentValue(smoothed)\<close>. \<open>getCurrentValue_value\<close> is the method up to the
  assignment of \<^verbatim>\<open>smoothedRef.time\<close>: the local \<^verbatim>\<open>value\<close> and the store as the call leaves
  it. \<open>getCurrentValue_return\<close> is the rest, from \<^verbatim>\<open>const abs = Math.abs(value)\<close> on.
\<close>

definition getCurrentValue_value ::
  "('c, 'u, 'e) external \<Rightarrow> ('c, 'u) ConsistentStore \<Rightarrow> bool \<Rightarrow> number \<times> ('c, 'u) ConsistentStore" where
  "getCurrentValue_value ext this smoothed =
     (let realStateTime = Clock_getCurrentTime ext (clock this);
          entry = last_entry ext (universe this);
          ref = Universe_applyStateAt ext (universe this) (realStateRef this) entry realStateTime;
          this1 = this\<lparr>realStateRef := ref\<rparr>
      in case smoothedRef_state this of
           Some st \<Rightarrow>
             (case smoothedRef_time this of
                Some t \<Rightarrow>
                  (let st' = applySmoothing st t ref realStateTime in
                   (if smoothed then smooth_value st' else state_value ref,
                    this1\<lparr>smoothedRef_state := Some st', smoothedRef_time := Some realStateTime\<rparr>))
              | None \<Rightarrow>
                  (state_value ref,
                   this1\<lparr>smoothedRef_state :=
                            Some \<lparr>smooth_value = state_value ref,
                                  smooth_velocity =
                                    (if directionInverted ref then js_neg velocity else velocity)\<rparr>,
                          smoothedRef_time := Some realStateTime\<rparr>))
         | None \<Rightarrow>
             (state_value ref,
              this1\<lparr>smoothedRef_state :=
                       Some \<lparr>smooth_value = state_value ref,
                             smooth_velocity =
                               (if directionInverted ref then js_neg velocity else velocity)\<rparr>,
                     smoothedRef_time := Some realStateTime\<rparr>))"

definition getCurrentValue_return :: "number \<Rightarrow> number" where
  "getCurrentValue_return val =
     (let abs' = Math_abs val;
          backwards = js_strict_eq (js_rem (Math_floor abs') (Fin 2)) (Fin 1)
      in if backwards then js_sub (Fin 1) (js_rem abs' (Fin 1)) else js_rem abs' (Fin 1))"

definition getCurrentValue ::
  "('c, 'u, 'e) external \<Rightarrow> ('c, 'u) ConsistentStore \<Rightarrow> bool \<Rightarrow> number \<times> ('c, 'u) ConsistentStore" where
  "getCurrentValue ext this smoothed =
     (case getCurrentValue_value ext this smoothed of
        (val, this') \<Rightarrow> (getCurrentValue_return val, this'))"

subsection \<open>A stand-in for the external library\<close>

text \<open>
  A simple clock and universe on which the model can be evaluated at concrete inputs.
  The clock is its current time, which only the operations on it move; the universe is
  its history, a list of entries (state time, state); \<^verbatim>\<open>applyStateAt\<close> extrapolates the
  entry's state to the given time with \<open>update\<close>.
\<close>

definition simple_external ::
  "(number, (number \<times> ContinousState) list, number \<times> ContinousState) external" where
  "simple_external =
     \<lparr>Clock_new = (\<lambda>time. time),
      Clock_getCurrentTime = (\<lambda>c. c),
      Clock_change = (\<lambda>c by' factor. js_add c (js_mul by' factor)),
      Clock_jump = (\<lambda>c by'. js_add c by'),
      Clock_wait = (\<lambda>c ms. js_add c ms),
      Universe_new = [],
      Universe_insert =
        (\<lambda>u a currentTime stateTime st.
           u @ [(stateTime,
                 case st of
                   Defined x \<Rightarrow> x
                 | _ \<Rightarrow> \<lparr>state_value = Fin 0, directionInverted = False\<rparr>)]),
      Universe_history = (\<lambda>u. u),
      Universe_applyStateAt =
        (\<lambda>u ref entry time.
           case entry of
             Defined e \<Rightarrow>
               update ref (Defined (snd e)) (js_sub time (fst e)) Undefined Undefined Undefined
           | _ \<Rightarrow> ref)\<rparr>"

definition simple_link :: StoreLink where
  "simple_link = \<lparr>link_id = IdNumber RootStoreDefaultLinkId, connection = 0\<rparr>"

definition peer_link :: StoreLink where
  "peer_link = \<lparr>link_id = IdString ''peer'', connection = 1\<rparr>"

text \<open>\<^verbatim>\<open>new ConsistentStore(onServer, 0, value, false)\<close> on the stand-in.\<close>

definition simple_store ::
  "bool \<Rightarrow> number \<Rightarrow> (number, (number \<times> ContinousState) list) ConsistentStore" where
  "simple_store onServer' val =
     fst (new_ConsistentStore simple_external simple_link (Fin (3 / 10)) onServer' (Fin 0) val False)"

section \<open>Properties of \<^verbatim>\<open>link.ts\<close>\<close>

text \<open>
  Claim C7. The reserved identifier \<^verbatim>\<open>RootStoreDefaultLinkId\<close> equals
  \<^verbatim>\<open>Number.MIN_SAFE_INTEGER\<close>, the number \<open>-9007199254740991\<close>.
\<close>

theorem RootStoreDefaultLinkId_is_MIN_SAFE_INTEGER:
  "RootStoreDefaultLinkId = Number_MIN_SAFE_INTEGER \<and>
   RootStoreDefaultLinkId = Fin (- 9007199254740991)"
  by (simp add: RootStoreDefaultLinkId_def Number_MIN_SAFE_INTEGER_def)

lemma as_ActionIdentifier_value: "as_ActionIdentifier (identifier_value i) = Some i"
  by (cases i) simp_all

lemma is_ActionIdentifier_iff: "is_ActionIdentifier x = (\<exists>i. x = identifier_value i)"
proof
  assume a: "is_ActionIdentifier x"
  show "\<exists>i. x = identifier_value i"
  proof (cases x)
    case (AnyNumber n)
    then have "x = identifier_value (ActionNumber n)" by simp
    then show ?thesis ..
  next
    case (AnyString s)
    then have "x = identifier_value (ActionString s)" by simp
    then show ?thesis ..
  qed (use a in simp_all)
next
  assume "\<exists>i. x = identifier_value i"
  then obtain i where "x = identifier_value i" ..
  then show "is_ActionIdentifier x" by (cases i) simp_all
qed

lemma as_StoreLinkMessage_array: "as_StoreLinkMessage (message_array m) = Some m"
  by (simp add: message_array_def as_ActionIdentifier_value)

lemma is_StoreLinkMessage_iff: "is_StoreLinkMessage xs = (\<exists>m. xs = message_array m)"
proof (cases xs)
  case Nil
  then show ?thesis by (simp add: message_array_def)
next
  case (Cons x ys)
  show ?thesis
  proof
    assume "is_StoreLinkMessage xs"
    then obtain i where "x = identifier_value i"
      using Cons is_ActionIdentifier_iff by auto
    then have "xs = message_array \<lparr>actionIdentifier = i, params = ys\<rparr>"
      using Cons by (simp add: message_array_def)
    then show "\<exists>m. xs = message_array m" by blast
  next
    assume "\<exists>m. xs = message_array m"
    then show "is_StoreLinkMessage xs"
      using is_ActionIdentifier_iff by (auto simp: message_array_def)
  qed
qed

lemma as_StoreLinkMessage_None: "(as_StoreLinkMessage xs = None) = (\<not> is_StoreLinkMessage xs)"
proof (cases xs)
  case Nil
  then show ?thesis by simp
next
  case (Cons x ys)
  then show ?thesis by (cases x) simp_all
qed

text \<open>
  Claim C8. A JavaScript array is of the type \<^verbatim>\<open>StoreLinkMessage\<close> exactly when it is
  the array of a message: the action identifier first, the parameters after it, in
  order. Reading the array back gives the message. \<^verbatim>\<open>publish\<close> accepts exactly the
  argument lists of this type, and sends the message they carry.
\<close>

theorem StoreLinkMessage_is_identifier_then_params:
  "is_StoreLinkMessage xs = (\<exists>m. xs = message_array m) \<and>
   message_array m = identifier_value (actionIdentifier m) # params m \<and>
   as_StoreLinkMessage (message_array m) = Some m \<and>
   (publish xs sent \<noteq> None) = is_StoreLinkMessage xs \<and>
   publish (message_array m) sent = Some (sent @ [m])"
  using is_StoreLinkMessage_iff [of xs] as_StoreLinkMessage_array [of m]
    as_StoreLinkMessage_None [of xs]
  by (auto simp: publish_def message_array_def split: option.splits)

section \<open>Properties of the subscribers\<close>

text \<open>
  Claim C5. Each run of the subscriber handler of \<^verbatim>\<open>ConsistentStore\<close> and of
  \<^verbatim>\<open>RequestStore\<close> makes exactly one call, and that call is \<^verbatim>\<open>accept\<close>: \<^verbatim>\<open>accept\<close> is
  called once, \<^verbatim>\<open>deny\<close> is never called, and the attempt goes from Pending to the
  terminal state Accepted. The \<^verbatim>\<open>ConsistentStore\<close> handler accepts with the current
  time and the real state extrapolated to it.
\<close>

theorem subscribers_accept_exactly_once:
  "snd (ConsistentStore_subscriber ext this conn) =
     [Accept (Clock_getCurrentTime ext (clock this),
              state_value (realStateRef (fst (ConsistentStore_subscriber ext this conn))),
              directionInverted (realStateRef (fst (ConsistentStore_subscriber ext this conn))))] \<and>
   RequestStore_subscriber conn' = [Accept ()] \<and>
   length (filter is_Accept (snd (ConsistentStore_subscriber ext this conn))) = 1 \<and>
   filter (\<lambda>c. \<not> is_Accept c) (snd (ConsistentStore_subscriber ext this conn)) = [] \<and>
   attempt_run Pending (snd (ConsistentStore_subscriber ext this conn)) = Some Accepted \<and>
   length (filter is_Accept (RequestStore_subscriber conn')) = 1 \<and>
   filter (\<lambda>c. \<not> is_Accept c) (RequestStore_subscriber conn') = [] \<and>
   attempt_run Pending (RequestStore_subscriber conn') = Some Accepted"
  by (simp add: ConsistentStore_subscriber_def RequestStore_subscriber_def Let_def)

section \<open>Properties of \<^verbatim>\<open>RequestStore.add\<close>\<close>

text \<open>
  Claim C4. Invoked locally (\<^verbatim>\<open>origin\<close> undefined), the handler of \<^verbatim>\<open>add\<close> returns
  exactly what \<^verbatim>\<open>this.add.publishTo(this.mainLink, v1, v2)\<close> returns, whatever
  \<^verbatim>\<open>Math.random()\<close> would give, and makes that one \<^verbatim>\<open>publishTo\<close> call. Invoked from a
  remote link it makes no \<^verbatim>\<open>publishTo\<close> call and returns \<^verbatim>\<open>NEVER\<close> or \<^verbatim>\<open>of(v1 + v2)\<close>:
  the sum is computed only there.
\<close>

theorem add_delegates_to_mainLink_when_local:
  "RequestStore_add publishTo random this None v1 v2 =
     (publishTo (mainLink this) [v1, v2], [PublishTo ''add'' (Link (mainLink this)) [v1, v2]]) \<and>
   RequestStore_add publishTo random this (Some l) v1 v2 =
     (if js_gt random (Fin (1 / 2)) then NEVER else rx_of (js_add v1 v2), [])"
  by (simp add: RequestStore_add_def)

text \<open>When \<^verbatim>\<open>Math.random()\<close> is at most 0.5, the handler of \<^verbatim>\<open>RequestStore.add\<close> answers a
  remote invocation as the handler of the spec's example does.\<close>

lemma RequestStore_add_remote_is_add_of:
  "\<not> js_gt random (Fin (1 / 2)) \<Longrightarrow>
   fst (RequestStore_add publishTo random this (Some l) v1 v2) = add_of (Some l) (v1, v2)"
  by (simp add: RequestStore_add_def add_of_def)

text \<open>The replies to a remote invocation reach no link but the origin, whatever the
  handler returns.\<close>

lemma deliveries_To_one_only:
  "\<forall>p \<in> set ps. fst p = To_one l \<Longrightarrow> d \<in> set (deliveries links ps) \<Longrightarrow> fst d = l"
proof (induction ps)
  case Nil
  then show ?case by simp
next
  case (Cons p ps)
  obtain t m where p: "p = (t, m)" by (cases p)
  with Cons.prems(1) have t: "t = To_one l" by simp
  from Cons.prems(2) p t
  have "d \<in> set (map (\<lambda>k. (k, m)) (recipients links (To_one l))) \<or> d \<in> set (deliveries links ps)"
    by simp
  then show ?case
  proof
    assume "d \<in> set (map (\<lambda>k. (k, m)) (recipients links (To_one l)))"
    then show ?thesis by (auto split: if_splits)
  next
    assume "d \<in> set (deliveries links ps)"
    with Cons.IH Cons.prems(1) show ?thesis by simp
  qed
qed

lemma Request_remote_replies_to_origin:
  "d \<in> set (deliveries links (Request_remote handler l parameters)) \<Longrightarrow> fst d = l"
proof -
  have "\<forall>p \<in> set (Request_remote handler l parameters). fst p = To_one l"
    by (auto simp: Request_remote_def Let_def split: ending.splits)
  then show "d \<in> set (deliveries links (Request_remote handler l parameters)) \<Longrightarrow> fst d = l"
    by (rule deliveries_To_one_only)
qed

text \<open>
  Claim C2. With the handler \<^verbatim>\<open>add(origin, a, b) => of(a + b)\<close> registered as \<^verbatim>\<open>"add"\<close>, the
  inbound message \<^verbatim>\<open>["add", 2, 3]\<close> from link \<open>l\<close> makes the dispatch layer publish
  exactly two messages, both addressed to \<open>l\<close> alone: the result 5, then the
  completion marker. No other link receives anything, and \<open>l\<close>, when it is in the
  link set, receives exactly these two, in this order.
\<close>

theorem remote_add_replies_to_origin_only:
  "Request_dispatch [ActionString ''add'' \<mapsto> add_of] l (ActionString ''add'', (Fin 2, Fin 3)) =
     [(To_one l, Result (Fin 5)), (To_one l, Completion)] \<and>
   filter (\<lambda>d. fst d \<noteq> l)
     (deliveries links
        (Request_dispatch [ActionString ''add'' \<mapsto> add_of] l (ActionString ''add'', (Fin 2, Fin 3)))) = [] \<and>
   (l \<in> set links \<longrightarrow>
      deliveries links
        (Request_dispatch [ActionString ''add'' \<mapsto> add_of] l (ActionString ''add'', (Fin 2, Fin 3))) =
      [(l, Result (Fin 5)), (l, Completion)])"
  by (simp add: Request_dispatch_def Request_remote_def add_of_def rx_of_def)

theorem remote_add_replies_to_origin_only_witness:
  "peer_link \<in> set [simple_link, peer_link] \<and>
   deliveries [simple_link, peer_link]
     (Request_dispatch [ActionString ''add'' \<mapsto> add_of] peer_link (ActionString ''add'', (Fin 2, Fin 3))) =
   [(peer_link, Result (Fin 5)), (peer_link, Completion)]"
  using remote_add_replies_to_origin_only [of peer_link "[simple_link, peer_link]"]
  by simp

section \<open>Properties of the \<^verbatim>\<open>ConsistentStore\<close> actions\<close>

text \<open>\<^verbatim>\<open>onServer\<close> is a readonly field: the constructor sets it and no operation changes
  it.\<close>

lemma new_ConsistentStore_onServer:
  "onServer (fst (new_ConsistentStore ext main random b time val inverted)) = b"
  by (simp add: new_ConsistentStore_def)

lemma invert_insert_onServer:
  "onServer (fst (invert_insert ext this origin currentTime stateTime ident)) = onServer this"
  by (simp add: invert_insert_def Let_def split: option.splits)

lemma invert_onServer:
  "onServer (fst (invert ext random this origin stateTime ident)) = onServer this"
  by (simp add: invert_def Let_def invert_insert_onServer split: nullable.splits)

lemma informTime_onServer:
  "onServer (fst (informTime ext this origin currentTime)) = onServer this"
  by (simp add: informTime_def split: option.splits nullable.splits)

lemma changeTime_onServer:
  "changeTime ext this origin by' = Inr (this', es) \<Longrightarrow> onServer this' = onServer this"
  by (auto simp: changeTime_def split: if_splits)

lemma subscriber_onServer:
  "onServer (fst (ConsistentStore_subscriber ext this conn)) = onServer this"
  by (simp add: ConsistentStore_subscriber_def Let_def)

lemma getCurrentValue_onServer:
  "onServer (snd (getCurrentValue ext this smoothed)) = onServer this"
  by (simp add: getCurrentValue_def getCurrentValue_value_def Let_def split: option.splits prod.splits)

text \<open>
  Claim C6. A store constructed with \<^verbatim>\<open>onServer = true\<close> has the field set, and on every
  store with the field set the handler of \<^verbatim>\<open>changeTime\<close> throws, for every origin and
  every argument; a local call of the action hands that failure to its caller.
\<close>

theorem changeTime_fails_on_server:
  "onServer (fst (new_ConsistentStore ext main random True time val inverted)) \<and>
   (\<forall>this by'. onServer this \<longrightarrow>
      Action_call (changeTime ext) this by' = Inl (Error ''should not warp time on the server'')) \<and>
   (\<forall>this origin by'. onServer this \<longrightarrow>
      changeTime ext this origin by' = Inl (Error ''should not warp time on the server''))"
  by (simp add: new_ConsistentStore_def Action_call_def changeTime_def)

theorem changeTime_fails_on_server_witness:
  "onServer (simple_store True (Fin 0)) \<and>
   Action_call (changeTime simple_external) (simple_store True (Fin 0)) (Fin 250) =
     Inl (Error ''should not warp time on the server'')"
proof -
  have h: "onServer (simple_store True (Fin 0))"
    by (simp add: simple_store_def new_ConsistentStore_def)
  from changeTime_fails_on_server [of simple_external simple_link "Fin 0" "Fin 0" "Fin 0" False]
  have "Action_call (changeTime simple_external) (simple_store True (Fin 0)) (Fin 250) =
     Inl (Error ''should not warp time on the server'')"
    using h by blast
  with h show ?thesis by simp
qed

text \<open>
  Claim C9. Invoked from a remote link with \<^verbatim>\<open>stateTime\<close> or \<^verbatim>\<open>id\<close> missing (undefined
  or null), the handler of \<^verbatim>\<open>invert\<close> returns the store as it was (clock, smoothed
  state, universe and every other field) and has no effect: it publishes nothing.
\<close>

theorem invert_ignores_incomplete_remote_message:
  "nullish stateTime \<or> nullish ident \<Longrightarrow>
   invert ext random this (Some l) stateTime ident = (this, [])"
  by (cases stateTime; cases ident) (simp_all add: invert_def)

theorem invert_ignores_incomplete_remote_message_witness:
  "(nullish (Null :: number nullable) \<or> nullish (Defined (Fin 7))) \<and>
   invert simple_external (Fin (1 / 4)) (simple_store True (Fin 0)) (Some peer_link) Null (Defined (Fin 7)) =
     (simple_store True (Fin 0), [])"
proof -
  have h: "nullish (Null :: number nullable) \<or> nullish (Defined (Fin 7))" by simp
  from invert_ignores_incomplete_remote_message [OF h] h show ?thesis by simp
qed

text \<open>The effects of \<^verbatim>\<open>invert\<close> and of \<^verbatim>\<open>informTime\<close>, case by case.\<close>

lemma invert_insert_effects:
  "snd (invert_insert ext this origin currentTime stateTime ident) =
     [PublishTo ''invert''
        (Target (case origin of None \<Rightarrow> To_all | Some l \<Rightarrow> To_all_except_one l))
        [stateTime, ident]]"
  by (simp add: invert_insert_def Let_def)

lemma invert_effects:
  "snd (invert ext random this origin stateTime ident) =
     (case origin of
        None \<Rightarrow> [PublishTo ''invert'' (Target To_all) [Clock_getCurrentTime ext (clock this), random]]
      | Some l \<Rightarrow>
          (case stateTime of
             Defined st \<Rightarrow>
               (case ident of
                  Defined i \<Rightarrow> [PublishTo ''invert'' (Target (To_all_except_one l)) [st, i]]
                | _ \<Rightarrow> [])
           | _ \<Rightarrow> []))"
  by (simp add: invert_def Let_def invert_insert_effects split: option.splits nullable.splits)

lemma informTime_effects:
  "snd (informTime ext this origin currentTime) =
     (case origin of
        None \<Rightarrow>
          [PublishTo ''informTime'' (Target (To_one (mainLink this)))
             [Clock_getCurrentTime ext (clock this)]]
      | Some l \<Rightarrow>
          (case currentTime of
             Defined t \<Rightarrow>
               if onServer this then
                 [PublishTo ''changeTime'' (Target (To_one l))
                    [js_sub (Clock_getCurrentTime ext (clock this)) t]]
               else []
           | _ \<Rightarrow> []))"
  by (simp add: informTime_def split: option.splits nullable.splits)

text \<open>
  Claim C3, as stated, fails: invoked from a remote link without a \<^verbatim>\<open>stateTime\<close>, the
  handler of \<^verbatim>\<open>invert\<close> makes no \<^verbatim>\<open>publishTo\<close> call at all.
\<close>

theorem invert_remote_incomplete_publishes_nothing:
  "publishTo_calls
     (snd (invert simple_external (Fin (1 / 4)) (simple_store True (Fin 0)) (Some peer_link)
             Undefined (Defined (Fin 7)))) = []"
  by (simp add: invert_def)

text \<open>
  Claim C3, amended. Invoked locally, the handler of \<^verbatim>\<open>invert\<close> publishes the invert
  message (the current time and a fresh id) once, with target \<^verbatim>\<open>{to: "all"}\<close>. Invoked
  from a remote link \<open>l\<close> with both \<^verbatim>\<open>stateTime\<close> and \<^verbatim>\<open>id\<close> present, it publishes them
  once, with target \<^verbatim>\<open>{to: "all-except-one", except: l}\<close>; with either missing it
  publishes nothing. The target \<^verbatim>\<open>{to: "all-except-one", except: l}\<close> never resolves to
  \<open>l\<close>, so the message is not echoed back to the originating link, and \<^verbatim>\<open>{to: "all"}\<close>
  resolves to the whole link set.
\<close>

theorem invert_forwards_by_origin:
  "snd (invert ext random this None stateTime ident) =
     [PublishTo ''invert'' (Target To_all) [Clock_getCurrentTime ext (clock this), random]] \<and>
   snd (invert ext random this (Some l) stateTime ident) =
     (case stateTime of
        Defined st \<Rightarrow>
          (case ident of
             Defined i \<Rightarrow> [PublishTo ''invert'' (Target (To_all_except_one l)) [st, i]]
           | _ \<Rightarrow> [])
      | _ \<Rightarrow> []) \<and>
   l \<notin> set (recipients links (To_all_except_one l)) \<and>
   recipients links To_all = links"
  by (simp add: invert_effects)

section \<open>The first argument of the \<^verbatim>\<open>publishTo\<close> calls\<close>

text \<open>
  Claim C1, as stated, fails: the \<^verbatim>\<open>publishTo\<close> call of \<^verbatim>\<open>RequestStore.add\<close> passes the
  link \<^verbatim>\<open>this.mainLink\<close> itself, which is none of the three tagged variants.
\<close>

theorem add_passes_link_not_target:
  "publishTo_calls
     (snd (RequestStore_add (\<lambda>l m. NEVER) (Fin 0) \<lparr>mainLink = simple_link\<rparr> None (Fin 2) (Fin 3))) =
     [(''add'', Link simple_link, [Fin 2, Fin 3])] \<and>
   \<not> is_addressing_target (Link simple_link)"
  by (simp add: RequestStore_add_def)

text \<open>
  Claim C1, amended. Every \<^verbatim>\<open>publishTo\<close> call on an Action of \<^verbatim>\<open>ConsistentStore\<close> (those
  of the handlers of \<^verbatim>\<open>informTime\<close> and \<^verbatim>\<open>invert\<close>; the handler of \<^verbatim>\<open>changeTime\<close> and the
  constructor make none) supplies one of the three tagged variants. The one
  \<^verbatim>\<open>publishTo\<close> call on a Request, made by the handler of \<^verbatim>\<open>RequestStore.add\<close> when it is
  invoked locally, passes the link \<^verbatim>\<open>mainLink\<close> itself.
\<close>

theorem action_publishTo_targets_are_tagged:
  "(\<forall>c \<in> set (publishTo_calls (snd (informTime ext this origin currentTime))).
      is_addressing_target (fst (snd c))) \<and>
   (\<forall>c \<in> set (publishTo_calls (snd (invert ext random this origin stateTime ident))).
      is_addressing_target (fst (snd c))) \<and>
   (\<forall>r. changeTime ext this origin by' = Inr r \<longrightarrow> publishTo_calls (snd r) = []) \<and>
   publishTo_calls (snd (new_ConsistentStore ext main random server time val inverted)) = [] \<and>
   publishTo_calls (snd (RequestStore_add publishTo random store origin v1 v2)) =
     (if origin = None then [(''add'', Link (mainLink store), [v1, v2])] else [])"
  by (auto simp: informTime_effects invert_effects changeTime_def new_ConsistentStore_def
      RequestStore_add_def split: option.splits nullable.splits if_splits)

theorem action_publishTo_targets_are_tagged_witness:
  "(''invert'', Target (To_all_except_one peer_link), [Fin 5, Fin 7]) \<in>
     set (publishTo_calls
            (snd (invert simple_external (Fin (1 / 4)) (simple_store True (Fin 0)) (Some peer_link)
                    (Defined (Fin 5)) (Defined (Fin 7))))) \<and>
   (''changeTime'', Target (To_one peer_link), [Fin (- 3)]) \<in>
     set (publishTo_calls
            (snd (informTime simple_external (simple_store True (Fin 0)) (Some peer_link)
                    (Defined (Fin 3))))) \<and>
   is_addressing_target (Target (To_all_except_one peer_link)) \<and>
   is_addressing_target (Target (To_one peer_link)) \<and>
   (\<exists>r. changeTime simple_external (simple_store False (Fin 0)) (Some peer_link) (Fin 250) = Inr r \<and>
        publishTo_calls (snd r) = [])"
proof -
  have 1: "(''invert'', Target (To_all_except_one peer_link), [Fin 5, Fin 7]) \<in>
     set (publishTo_calls
            (snd (invert simple_external (Fin (1 / 4)) (simple_store True (Fin 0)) (Some peer_link)
                    (Defined (Fin 5)) (Defined (Fin 7)))))"
    by (simp add: invert_effects)
  have 2: "(''changeTime'', Target (To_one peer_link), [Fin (- 3)]) \<in>
     set (publishTo_calls
            (snd (informTime simple_external (simple_store True (Fin 0)) (Some peer_link)
                    (Defined (Fin 3)))))"
    by (simp add: informTime_effects simple_store_def new_ConsistentStore_def simple_external_def
        js_sub_def)
  obtain r where 3: "changeTime simple_external (simple_store False (Fin 0)) (Some peer_link) (Fin 250) = Inr r"
    by (simp add: changeTime_def simple_store_def new_ConsistentStore_def)
  note t = action_publishTo_targets_are_tagged
    [of simple_external "simple_store True (Fin 0)" "Some peer_link" "Defined (Fin 3)"
        "Fin (1 / 4)" "Defined (Fin 5)" "Defined (Fin 7)"]
  note t' = action_publishTo_targets_are_tagged
    [of simple_external "simple_store False (Fin 0)" "Some peer_link" _ _ _ _ "Fin 250"]
  from t 1 have 4: "is_addressing_target (Target (To_all_except_one peer_link))" by fastforce
  from t 2 have 5: "is_addressing_target (Target (To_one peer_link))" by fastforce
  from t' 3 have 6: "publishTo_calls (snd r) = []" by blast
  from 1 2 3 4 5 6 show ?thesis by blast
qed

section \<open>Properties of \<^verbatim>\<open>getCurrentValue\<close>\<close>

lemma trunc_nonneg: "0 \<le> x \<Longrightarrow> trunc x = \<lfloor>x\<rfloor>"
  by (simp add: trunc_def)

lemma js_rem_one: "0 \<le> a \<Longrightarrow> js_rem (Fin a) (Fin 1) = Fin (frac a)"
  by (simp add: trunc_nonneg frac_def)

lemma js_rem_two: "0 \<le> n \<Longrightarrow> js_rem (Fin (of_int n)) (Fin 2) = Fin (of_int (n mod 2))"
proof -
  assume n: "0 \<le> n"
  have "\<lfloor>(of_int n :: real) / of_int 2\<rfloor> = n div 2"
    by (rule floor_divide_of_int_eq)
  then have "trunc (of_int n / 2) = n div 2"
    using n by (simp add: trunc_def)
  moreover have "(of_int n :: real) - 2 * of_int (n div 2) = of_int (n mod 2)"
    by (simp add: minus_mult_div_eq_mod [symmetric] del: minus_mult_div_eq_mod)
  ultimately show ?thesis by simp
qed

lemma js_add_NaN_right: "js_add a NaN = NaN"
  by (cases a) simp_all

text \<open>The last three lines of the method on a finite value: the value is folded into
  the unit interval, forwards on even and backwards on odd integer parts.\<close>

lemma getCurrentValue_return_Fin:
  "getCurrentValue_return (Fin v) =
     Fin (if \<lfloor>\<bar>v\<bar>\<rfloor> mod 2 = 1 then 1 - frac \<bar>v\<bar> else frac \<bar>v\<bar>)"
proof -
  have a: "Math_abs (Fin v) = Fin \<bar>v\<bar>" by simp
  have b: "Math_floor (Fin \<bar>v\<bar>) = Fin (of_int \<lfloor>\<bar>v\<bar>\<rfloor>)" by simp
  have c: "js_rem (Fin (of_int \<lfloor>\<bar>v\<bar>\<rfloor>)) (Fin 2) = Fin (of_int (\<lfloor>\<bar>v\<bar>\<rfloor> mod 2))"
    by (rule js_rem_two) simp
  have d: "js_rem (Fin \<bar>v\<bar>) (Fin 1) = Fin (frac \<bar>v\<bar>)"
    by (rule js_rem_one) simp
  have e: "js_strict_eq (Fin (of_int (\<lfloor>\<bar>v\<bar>\<rfloor> mod 2))) (Fin 1) = (\<lfloor>\<bar>v\<bar>\<rfloor> mod 2 = 1)"
    by (simp add: js_strict_eq_def)
  have f: "js_sub (Fin 1) (Fin (frac \<bar>v\<bar>)) = Fin (1 - frac \<bar>v\<bar>)"
    by (simp add: js_sub_def)
  show ?thesis
    unfolding getCurrentValue_return_def Let_def a b c d e f by simp
qed

text \<open>On a value that is not finite the same lines give \<^verbatim>\<open>NaN\<close>.\<close>

lemma getCurrentValue_return_special:
  "getCurrentValue_return NaN = NaN" "getCurrentValue_return PosInf = NaN"
  "getCurrentValue_return NegInf = NaN"
  by (simp_all add: getCurrentValue_return_def js_strict_eq_def)

lemma getCurrentValue_fst:
  "fst (getCurrentValue ext this smoothed) =
     getCurrentValue_return (fst (getCurrentValue_value ext this smoothed))"
  by (simp add: getCurrentValue_def split: prod.splits)

text \<open>
  When the clock reads the time of the previous call and the smoothed value equals the
  real one, \<^verbatim>\<open>applySmoothing\<close> divides zero by zero: the smoothed state becomes \<^verbatim>\<open>NaN\<close>,
  and so does the result of \<^verbatim>\<open>getCurrentValue(true)\<close>, whatever the clock and the
  universe are.
\<close>

lemma applySmoothing_zero_delta:
  "applySmoothing \<lparr>smooth_value = Fin x, smooth_velocity = w\<rparr> (Fin t)
     \<lparr>state_value = Fin x, directionInverted = d\<rparr> (Fin t) =
   \<lparr>smooth_value = NaN, smooth_velocity = NaN\<rparr>"
  by (simp add: applySmoothing_def limitAbs_def Math_max_def Math_min_def js_sub_def Let_def
      velocity_def js_add_NaN_right)

lemma getCurrentValue_NaN_when_time_stands_still:
  assumes "smoothedRef_state this = Some st" and "smoothedRef_time this = Some (Fin t)"
    and "Clock_getCurrentTime ext (clock this) = Fin t"
    and "smooth_value st = Fin x"
    and "state_value (Universe_applyStateAt ext (universe this) (realStateRef this)
           (last_entry ext (universe this)) (Fin t)) = Fin x"
  shows "fst (getCurrentValue ext this True) = NaN"
proof -
  let ?ref = "Universe_applyStateAt ext (universe this) (realStateRef this)
           (last_entry ext (universe this)) (Fin t)"
  have st: "st = \<lparr>smooth_value = Fin x, smooth_velocity = smooth_velocity st\<rparr>"
    using assms(4) by (cases st) simp
  have ref: "?ref = \<lparr>state_value = Fin x, directionInverted = directionInverted ?ref\<rparr>"
    using assms(5) by (cases ?ref) simp
  have "applySmoothing st (Fin t) ?ref (Fin t) = \<lparr>smooth_value = NaN, smooth_velocity = NaN\<rparr>"
    by (subst st, subst ref) (rule applySmoothing_zero_delta)
  then have "fst (getCurrentValue_value ext this True) = NaN"
    using assms(1-3) by (simp add: getCurrentValue_value_def Let_def)
  then show ?thesis
    by (simp add: getCurrentValue_fst getCurrentValue_return_special)
qed

text \<open>The first call on a new store, at time 0 with value 0.\<close>

lemma getCurrentValue_first_call:
  "getCurrentValue simple_external (simple_store False (Fin 0)) True =
     (Fin 0,
      (simple_store False (Fin 0))
        \<lparr>smoothedRef_state := Some \<lparr>smooth_value = Fin 0, smooth_velocity = velocity\<rparr>,
         smoothedRef_time := Some (Fin 0),
         realStateRef := \<lparr>state_value = Fin 0, directionInverted = False\<rparr>\<rparr>)"
  by (simp add: getCurrentValue_def getCurrentValue_value_def getCurrentValue_return_Fin
      simple_store_def new_ConsistentStore_def simple_external_def last_entry_def update_def
      js_sub_def Let_def velocity_def)

text \<open>
  At a zero time step with differing values the quotient is infinite, the limit of the
  velocity change is zero, and \<^verbatim>\<open>applySmoothing\<close> leaves the smooth state as it was:
  only the case of equal values is unguarded.
\<close>

lemma applySmoothing_zero_delta_differing:
  "x \<noteq> y \<Longrightarrow>
   applySmoothing \<lparr>smooth_value = Fin y, smooth_velocity = Fin w\<rparr> (Fin t)
     \<lparr>state_value = Fin x, directionInverted = d\<rparr> (Fin t) =
   \<lparr>smooth_value = Fin y, smooth_velocity = Fin w\<rparr>"
  by (simp add: applySmoothing_def limitAbs_def Math_max_def Math_min_def js_sub_def Let_def
      velocity_def js_inf_def)

text \<open>A smoothed value that is \<^verbatim>\<open>NaN\<close> stays so: every later call of
  \<^verbatim>\<open>getCurrentValue(true)\<close> returns \<^verbatim>\<open>NaN\<close>.\<close>

lemma applySmoothing_NaN_stays:
  "smooth_value st = NaN \<Longrightarrow> smooth_value (applySmoothing st t ref t') = NaN"
  by (simp add: applySmoothing_def Let_def)

lemma getCurrentValue_NaN_stays:
  assumes "smoothedRef_state this = Some st" and "smoothedRef_time this = Some t"
    and "smooth_value st = NaN"
  shows "fst (getCurrentValue ext this True) = NaN"
    and "\<exists>st'. smoothedRef_state (snd (getCurrentValue ext this True)) = Some st' \<and>
           smooth_value st' = NaN"
    and "smoothedRef_time (snd (getCurrentValue ext this True)) \<noteq> None"
  using assms
  by (simp_all add: getCurrentValue_def getCurrentValue_value_def Let_def
      applySmoothing_NaN_stays getCurrentValue_return_special split: prod.splits)

text \<open>
  Claim C10. \<^verbatim>\<open>getCurrentValue\<close> is to return a number of the closed interval [0, 1]
  for every store state and both values of the flag. The code does not: on a new
  store (time 0, value 0, not on the server) the first call of \<^verbatim>\<open>getCurrentValue(true)\<close>
  returns 0, and a second call at the same clock reading returns \<^verbatim>\<open>NaN\<close>, since
  \<^verbatim>\<open>applySmoothing\<close> divides zero by a zero time step.
\<close>

theorem getCurrentValue_twice_at_one_time_is_NaN:
  "fst (getCurrentValue simple_external
          (snd (getCurrentValue simple_external (simple_store False (Fin 0)) True)) True) = NaN"
proof -
  have "fst (getCurrentValue_value simple_external
          (snd (getCurrentValue simple_external (simple_store False (Fin 0)) True)) True) = NaN"
    unfolding getCurrentValue_first_call snd_conv
    by (simp add: getCurrentValue_value_def simple_store_def new_ConsistentStore_def
        simple_external_def last_entry_def update_def js_sub_def Let_def
        applySmoothing_zero_delta [of 0 velocity 0 False, unfolded velocity_def] velocity_def)
  then show ?thesis
    by (simp add: getCurrentValue_fst getCurrentValue_return_special)
qed

end
